theory Spec2Isabelle
  imports Complex_Main
begin

section \<open>The client store (store/main)\<close>

text \<open>
  The store is a Zustand store: one state object, \<open>AppState\<close>, which the actions change with
  \<open>set\<close> (a partial update, here a record update) and read with \<open>get\<close>.  An asynchronous
  action awaits one HTTP request; the model takes the outcome of that request as an argument,
  so both the \<open>try\<close> branch and the \<open>catch\<close> branch of an action are branches of one function.
  JavaScript numbers that are identifiers, counts or minutes are \<open>int\<close>, ratings averages are
  \<open>real\<close>; \<open>T | null\<close> is \<open>T option\<close>; strings are \<open>string\<close>.
\<close>

subsection \<open>Types of the store\<close>

record UserSummary =
  user_id :: int
  username :: string
  profile_picture_url :: "string option"

record UserProfile = UserSummary +
  email :: string
  first_name :: "string option"
  last_name :: "string option"

datatype difficulty = Easy | Medium | Hard

record RecipeComment =
  comment_id :: int
  comment_user :: UserSummary
  comment_text :: string
  created_at :: string

record IngredientDetail =
  ing_quantity :: real
  ing_unit :: "string option"
  ing_name :: string
  ing_order :: int

record InstructionDetail =
  ins_step_number :: int
  ins_description :: string

record RecipeDetail =
  rd_recipe_id :: int
  rd_title :: string
  rd_description :: string
  rd_cover_photo_url :: string
  rd_prep_time_minutes :: int
  rd_cook_time_minutes :: int
  rd_servings :: int
  rd_difficulty_level :: difficulty
  rd_nutri_net_carbs_grams_per_serving :: "real option"
  rd_nutri_protein_grams_per_serving :: "real option"
  rd_nutri_fat_grams_per_serving :: "real option"
  rd_notes_tips :: "string option"
  rd_average_rating :: "real option"
  rd_rating_count :: int
  rd_submitter :: UserSummary
  rd_tags :: "string list"
  rd_ingredients :: "IngredientDetail list"
  rd_instructions :: "InstructionDetail list"
  rd_comments :: "RecipeComment list"
  rd_is_recipe_saved :: "bool option"
    \<comment> \<open>not in the interface; \<open>saveRecipe\<close> and \<open>unsaveRecipe\<close> add it to the object\<close>

record RecipeSummary =
  recipe_id :: int
  title :: string
  description :: string
  cover_photo_url :: string
  prep_time_minutes :: int
  cook_time_minutes :: int
  difficulty_level :: difficulty
  average_rating :: "real option"
  rs_user_id :: int
  rs_username :: string
  tags :: "string list"
  saved_at :: "string option"

record PaginationInfo =
  total_items :: int
  total_pages :: int
  current_page :: int
  items_per_page :: int

record PaginatedRecipesResponse =
  recipes :: "RecipeSummary list"
  pagination :: PaginationInfo

record FilterParams =
  fp_tags :: "string list"
  fp_difficulty :: "string list"
  max_prep_time :: "int option"
  max_cook_time :: "int option"
  min_rating :: "real option"

datatype notification_type = Success | Error | Info

record Notification =
  message :: string
  ntype :: notification_type

text \<open>
  \<open>AppState\<close> extends \<open>AuthState\<close>, \<open>RecipesState\<close>, \<open>UserProfileState\<close> and \<open>UiState\<close>; the
  record lists their fields in that order.  \<open>sort_order\<close> is typed
  \<open>'newest' | 'rating' | 'popularity'\<close> but the views write strings cast to that type, so it
  is a string here.
\<close>

record AppState =
  is_authenticated :: bool
  access_token :: "string option"
  user_profile_summary :: "UserSummary option"
  auth_error :: "string option"
  loading_auth :: bool
  paginated_recipes :: PaginatedRecipesResponse
  current_recipe_details :: "RecipeDetail option"
  recipe_fetch_error :: "string option"
  recipe_loading :: bool
  filter_params :: FilterParams
  sort_order :: string
  search_query :: string
  current_user_profile :: "UserProfile option"
  saved_recipes :: "RecipeSummary list"
  saved_recipes_loading :: bool
  profile_fetch_error :: "string option"
  public_user_profile :: "UserProfile option"
  modal_open :: "string option"
  notification :: "Notification option"

subsection \<open>HTTP outcomes and JavaScript truthiness\<close>

text \<open>
  What the \<open>catch\<close> blocks read from a failed request: \<open>error.response?.status\<close>,
  \<open>error.response?.data?.error\<close> and \<open>error.message\<close>.  A field that is absent, \<open>undefined\<close>
  or \<open>null\<close> is \<open>None\<close>.
\<close>

record http_error =
  err_status :: "nat option"
  err_data_error :: "string option"
  err_message :: string

datatype 'a http_outcome = Responded 'a | Failed http_error

text \<open>A string or null is falsy when it is null or the empty string.\<close>

definition truthy :: "string option \<Rightarrow> bool" where
  "truthy v = (case v of None \<Rightarrow> False | Some s \<Rightarrow> s \<noteq> [])"

text \<open>\<open>error.response?.data?.error || error.message || fallback\<close>\<close>

definition errorMessage :: "http_error \<Rightarrow> string \<Rightarrow> string" where
  "errorMessage e fallback =
     (if truthy (err_data_error e) then the (err_data_error e)
      else if err_message e \<noteq> [] then err_message e
      else fallback)"

text \<open>\<open>a || b\<close> for an optional string \<open>a\<close> and a string \<open>b\<close>.\<close>

definition or_else :: "string option \<Rightarrow> string \<Rightarrow> string" where
  "or_else a b = (if truthy a then the a else b)"

subsection \<open>Notifications\<close>

text \<open>
  \<open>showNotification\<close> sets the notification and calls \<open>setTimeout(callback, 3000)\<close>.  The model
  returns the new state together with the timer it scheduled: its delay in milliseconds and
  the message the callback has captured.  \<open>timer_callback\<close> is the callback: it clears the
  notification only when the notification then displayed carries the captured message
  (\<open>state.notification?.message === message\<close>), and otherwise returns the state as it is.
\<close>

record timer =
  delay_ms :: nat
  captured_message :: string

definition timer_callback :: "timer \<Rightarrow> AppState \<Rightarrow> AppState" where
  "timer_callback t s =
     (case notification s of
        None \<Rightarrow> s
      | Some n \<Rightarrow> if message n = captured_message t then s\<lparr>notification := None\<rparr> else s)"

definition showNotification :: "string \<Rightarrow> notification_type \<Rightarrow> AppState \<Rightarrow> AppState \<times> timer" where
  "showNotification msg ty s =
     (s\<lparr>notification := Some \<lparr>message = msg, ntype = ty\<rparr>\<rparr>,
      \<lparr>delay_ms = 3000, captured_message = msg\<rparr>)"

subsection \<open>Authentication actions\<close>

definition logout :: "AppState \<Rightarrow> AppState" where
  "logout s = s\<lparr>is_authenticated := False,
               access_token := None,
               user_profile_summary := None,
               current_user_profile := None,
               saved_recipes := [],
               auth_error := None,
               loading_auth := False\<rparr>"

text \<open>
  \<open>loadUserProfile\<close>: returns at once without a token; otherwise \<open>GET /users/me\<close>.  In the
  \<open>catch\<close> block a 401 logs out before the error is stored.
\<close>

definition loadUserProfile :: "UserProfile http_outcome \<Rightarrow> AppState \<Rightarrow> AppState" where
  "loadUserProfile outcome s =
     (if \<not> truthy (access_token s) then s
      else
        let s1 = s\<lparr>loading_auth := True\<rparr> in
        case outcome of
          Responded userProfile \<Rightarrow>
            s1\<lparr>current_user_profile := Some userProfile,
               user_profile_summary :=
                 Some \<lparr>user_id = user_id userProfile,
                       username = username userProfile,
                       profile_picture_url = profile_picture_url userProfile\<rparr>,
               loading_auth := False\<rparr>
        | Failed e \<Rightarrow>
            let msg = errorMessage e ''Failed to load profile'';
                s2 = (if err_status e = Some 401 then logout s1 else s1)
            in s2\<lparr>profile_fetch_error := Some msg, loading_auth := False\<rparr>)"

text \<open>
  \<open>fetchSavedRecipes\<close>: the response body's \<open>recipes\<close> field may be missing
  (\<open>response.data.recipes || []\<close>).  In the \<open>catch\<close> block the error is stored first and a 401
  then logs out.
\<close>

definition fetchSavedRecipes ::
  "RecipeSummary list option http_outcome \<Rightarrow> AppState \<Rightarrow> bool \<times> AppState" where
  "fetchSavedRecipes outcome s =
     (if \<not> truthy (access_token s)
      then (False, s\<lparr>saved_recipes := [], saved_recipes_loading := False\<rparr>)
      else
        let s1 = s\<lparr>saved_recipes_loading := True, saved_recipes := [],
                   profile_fetch_error := None\<rparr> in
        case outcome of
          Responded rs \<Rightarrow>
            (True, s1\<lparr>saved_recipes := (case rs of None \<Rightarrow> [] | Some xs \<Rightarrow> xs),
                      saved_recipes_loading := False\<rparr>)
        | Failed e \<Rightarrow>
            let msg = errorMessage e ''Failed to load saved recipes'';
                s2 = s1\<lparr>profile_fetch_error := Some msg, saved_recipes_loading := False\<rparr>
            in (False, if err_status e = Some 401 then logout s2 else s2))"

subsection \<open>Mutation actions of the store\<close>

text \<open>
  Each action returns its result, the new state and the timers it scheduled.  Without a token
  it returns its failure value at once and sends nothing.  The bodies of the success
  responses carry an optional \<open>message\<close>; the rating response also carries the new average.
\<close>

record message_response =
  resp_message :: "string option"

record rating_response = message_response +
  resp_average_rating :: "real option"

definition submitRating ::
  "int \<Rightarrow> int \<Rightarrow> rating_response http_outcome \<Rightarrow> AppState \<Rightarrow> bool \<times> AppState \<times> timer list" where
  "submitRating rid rating outcome s =
     (if \<not> truthy (access_token s) then (False, s, [])
      else
        case outcome of
          Responded resp \<Rightarrow>
            let (s1, t) = showNotification (or_else (resp_message resp) ''Rating submitted'') Success s;
                s2 = (case current_recipe_details s1 of
                        None \<Rightarrow> s1
                      | Some d \<Rightarrow>
                          if rd_recipe_id d = rid
                          then s1\<lparr>current_recipe_details :=
                                   Some (d\<lparr>rd_average_rating := resp_average_rating resp,
                                           rd_rating_count :=
                                             (if rd_rating_count d \<noteq> 0 then rd_rating_count d + 1 else 1)\<rparr>)\<rparr>
                          else s1)
            in (True, s2, [t])
        | Failed e \<Rightarrow>
            let (s1, t) = showNotification (errorMessage e ''Failed to submit rating'') Error s
            in (False, s1, [t]))"

definition postComment ::
  "int \<Rightarrow> string \<Rightarrow> RecipeComment http_outcome \<Rightarrow> AppState
     \<Rightarrow> RecipeComment option \<times> AppState \<times> timer list" where
  "postComment rid text outcome s =
     (if \<not> truthy (access_token s) then (None, s, [])
      else
        case outcome of
          Responded newComment \<Rightarrow>
            let s1 = (case current_recipe_details s of
                        None \<Rightarrow> s
                      | Some d \<Rightarrow>
                          if rd_recipe_id d = rid
                          then s\<lparr>current_recipe_details :=
                                  Some (d\<lparr>rd_comments := rd_comments d @ [newComment]\<rparr>)\<rparr>
                          else s);
                (s2, t) = showNotification ''Comment posted successfully'' Success s1
            in (Some newComment, s2, [t])
        | Failed e \<Rightarrow>
            let (s1, t) = showNotification (errorMessage e ''Failed to post comment'') Error s
            in (None, s1, [t]))"

definition deleteComment ::
  "int \<Rightarrow> message_response http_outcome \<Rightarrow> AppState \<Rightarrow> bool \<times> AppState \<times> timer list" where
  "deleteComment cid outcome s =
     (if \<not> truthy (access_token s) then (False, s, [])
      else
        case outcome of
          Responded resp \<Rightarrow>
            let (s1, t) = showNotification (or_else (resp_message resp) ''Comment deleted'') Success s;
                s2 = (case current_recipe_details s1 of
                        None \<Rightarrow> s1
                      | Some d \<Rightarrow>
                          s1\<lparr>current_recipe_details :=
                               Some (d\<lparr>rd_comments := filter (\<lambda>c. comment_id c \<noteq> cid) (rd_comments d)\<rparr>)\<rparr>)
            in (True, s2, [t])
        | Failed e \<Rightarrow>
            let (s1, t) = showNotification (errorMessage e ''Failed to delete comment'') Error s
            in (False, s1, [t]))"

text \<open>
  \<open>saveRecipe\<close> stamps the entry with \<open>new Date().toISOString()\<close>, the argument \<open>now\<close>.  When
  the recipe is not in the list yet, a placeholder built from the recipe on display (or from
  defaults) is pushed.
\<close>

definition saved_placeholder :: "int \<Rightarrow> string \<Rightarrow> RecipeDetail option \<Rightarrow> RecipeSummary" where
  "saved_placeholder rid now details =
     \<lparr>recipe_id = rid,
      title = or_else (map_option rd_title details) ''Saved Recipe'',
      description = or_else (map_option rd_description details) [],
      cover_photo_url = or_else (map_option rd_cover_photo_url details) [],
      prep_time_minutes = (case details of None \<Rightarrow> 0 | Some d \<Rightarrow> rd_prep_time_minutes d),
      cook_time_minutes = (case details of None \<Rightarrow> 0 | Some d \<Rightarrow> rd_cook_time_minutes d),
      difficulty_level = (case details of None \<Rightarrow> Easy | Some d \<Rightarrow> rd_difficulty_level d),
      average_rating = (case details of None \<Rightarrow> None | Some d \<Rightarrow> rd_average_rating d),
      rs_user_id = (case details of None \<Rightarrow> 0 | Some d \<Rightarrow> user_id (rd_submitter d)),
      rs_username = (case details of None \<Rightarrow> ''Unknown'' | Some d \<Rightarrow> username (rd_submitter d)),
      tags = (case details of None \<Rightarrow> [] | Some d \<Rightarrow> rd_tags d),
      saved_at = Some now\<rparr>"

definition saveRecipe ::
  "int \<Rightarrow> string \<Rightarrow> message_response http_outcome \<Rightarrow> AppState \<Rightarrow> bool \<times> AppState \<times> timer list" where
  "saveRecipe rid now outcome s =
     (if \<not> truthy (access_token s) then (False, s, [])
      else
        case outcome of
          Responded resp \<Rightarrow>
            let (s1, t) = showNotification (or_else (resp_message resp) ''Recipe saved'') Success s;
                updatedCurrentRecipe =
                  map_option (\<lambda>d. d\<lparr>rd_is_recipe_saved := Some True\<rparr>) (current_recipe_details s1);
                mapped = map (\<lambda>r. if recipe_id r = rid then r\<lparr>saved_at := Some now\<rparr> else r)
                             (saved_recipes s1);
                updatedSavedRecipes =
                  (if list_ex (\<lambda>r. recipe_id r = rid) mapped then mapped
                   else mapped @ [saved_placeholder rid now (current_recipe_details s1)])
            in (True,
                s1\<lparr>current_recipe_details := updatedCurrentRecipe,
                   saved_recipes := updatedSavedRecipes\<rparr>,
                [t])
        | Failed e \<Rightarrow>
            let (s1, t) = showNotification (errorMessage e ''Failed to save recipe'') Error s
            in (False, s1, [t]))"

definition unsaveRecipe ::
  "int \<Rightarrow> message_response http_outcome \<Rightarrow> AppState \<Rightarrow> bool \<times> AppState \<times> timer list" where
  "unsaveRecipe rid outcome s =
     (if \<not> truthy (access_token s) then (False, s, [])
      else
        case outcome of
          Responded resp \<Rightarrow>
            let (s1, t) = showNotification (or_else (resp_message resp) ''Recipe unsaved'') Success s;
                updatedCurrentRecipe =
                  map_option (\<lambda>d. d\<lparr>rd_is_recipe_saved := Some False\<rparr>) (current_recipe_details s1);
                updatedSavedRecipes = filter (\<lambda>r. recipe_id r \<noteq> rid) (saved_recipes s1)
            in (True,
                s1\<lparr>current_recipe_details := updatedCurrentRecipe,
                   saved_recipes := updatedSavedRecipes\<rparr>,
                [t])
        | Failed e \<Rightarrow>
            let (s1, t) = showNotification (errorMessage e ''Failed to unsave recipe'') Error s
            in (False, s1, [t]))"

subsection \<open>Filter, sort and page setters\<close>





definition setSearchQuery :: "string \<Rightarrow> AppState \<Rightarrow> AppState" where
  "setSearchQuery query s = s\<lparr>search_query := query\<rparr>"

definition setPage :: "int \<Rightarrow> AppState \<Rightarrow> AppState" where
  "setPage pageNumber s =
     s\<lparr>paginated_recipes :=
         (paginated_recipes s)\<lparr>pagination :=
            (pagination (paginated_recipes s))\<lparr>current_page := pageNumber\<rparr>\<rparr>\<rparr>"

section \<open>Exceptions\<close>

text \<open>
  An exception is a \<open>TypeError\<close> or a plain \<open>Error\<close>, with its message.  Calling a value
  that is \<open>undefined\<close> throws a \<open>TypeError\<close>; its message names the callee (the wording is
  that of V8 and SpiderMonkey).  A function that a view selects from the store is optional
  in the model: \<open>None\<close> is \<open>undefined\<close>, which is what the selector reads for a key the
  store does not have.
\<close>

datatype exception = TypeError string | JsError string

fun exception_message :: "exception \<Rightarrow> string" where
  "exception_message (TypeError msg) = msg"
| "exception_message (JsError msg) = msg"

definition not_a_function :: "string \<Rightarrow> exception" where
  "not_a_function callee = TypeError (callee @ '' is not a function'')"

definition call_action ::
  "string \<Rightarrow> ('a \<Rightarrow> AppState \<Rightarrow> AppState) option \<Rightarrow> 'a \<Rightarrow> AppState \<Rightarrow> exception + AppState" where
  "call_action callee f x s =
     (case f of None \<Rightarrow> Inl (not_a_function callee) | Some g \<Rightarrow> Inr (g x s))"

section \<open>The saved-recipes view (UV_UserSavedRecipes)\<close>

text \<open>
  The view selects \<open>state.setSavedRecipes\<close> and \<open>state.setSavedRecipesLoading\<close> from the
  store.  The object the store is created with has neither key, so both are \<open>undefined\<close>.
\<close>

definition store_setSavedRecipes :: "(RecipeSummary list \<Rightarrow> AppState \<Rightarrow> AppState) option" where
  "store_setSavedRecipes = None"

definition store_setSavedRecipesLoading :: "(bool \<Rightarrow> AppState \<Rightarrow> AppState) option" where
  "store_setSavedRecipesLoading = None"

text \<open>
  The callbacks of the unsave mutation take the two selected functions as arguments.
  \<open>saved_recipes\<close> and \<open>accessToken\<close> are the values the view has selected from the store,
  read here from the state the handler runs in.  A callback that throws stops where it
  throws: what it wrote to the store before stays written.

  \<open>onMutate\<close> reads the saved recipes, calls \<open>setSavedRecipes\<close> with the filtered list, calls
  \<open>setSavedRecipesLoading(true)\<close> and returns the context.
\<close>

record unsave_context =
  previousSavedRecipes :: "RecipeSummary list"

record mutate_step =
  mutate_store :: AppState
  mutate_context :: "unsave_context option"
  mutate_thrown :: "exception option"

definition unsave_onMutate ::
  "(RecipeSummary list \<Rightarrow> AppState \<Rightarrow> AppState) option \<Rightarrow> (bool \<Rightarrow> AppState \<Rightarrow> AppState) option
     \<Rightarrow> int \<Rightarrow> AppState \<Rightarrow> mutate_step" where
  "unsave_onMutate setSavedRecipes setSavedRecipesLoading recipeId s =
     (let previous = saved_recipes s
      in case call_action ''setSavedRecipes'' setSavedRecipes
                (filter (\<lambda>recipe. recipe_id recipe \<noteq> recipeId) previous) s of
           Inl err \<Rightarrow> \<lparr>mutate_store = s, mutate_context = None, mutate_thrown = Some err\<rparr>
         | Inr s1 \<Rightarrow>
             (case call_action ''setSavedRecipesLoading'' setSavedRecipesLoading True s1 of
                Inl err \<Rightarrow> \<lparr>mutate_store = s1, mutate_context = None, mutate_thrown = Some err\<rparr>
              | Inr s2 \<Rightarrow>
                  \<lparr>mutate_store = s2,
                   mutate_context = Some \<lparr>previousSavedRecipes = previous\<rparr>,
                   mutate_thrown = None\<rparr>))"

text \<open>
  \<open>mutationFn\<close> is the view's \<open>unsaveRecipe\<close>: without a token it throws and sends nothing,
  otherwise it sends the DELETE request and throws when that fails.  The result is whether
  the request was sent and what was thrown.
\<close>

definition unsave_mutationFn :: "unit http_outcome \<Rightarrow> AppState \<Rightarrow> bool \<times> exception option" where
  "unsave_mutationFn outcome s =
     (if \<not> truthy (access_token s) then (False, Some (JsError ''User not authenticated''))
      else (True, case outcome of
                    Responded _ \<Rightarrow> None
                  | Failed e \<Rightarrow> Some (JsError (err_message e))))"

record handler_step =
  handler_store :: AppState
  handler_timers :: "timer list"
  handler_thrown :: "exception option"

definition unsave_onSuccess :: "(bool \<Rightarrow> AppState \<Rightarrow> AppState) option \<Rightarrow> AppState \<Rightarrow> handler_step" where
  "unsave_onSuccess setSavedRecipesLoading s =
     (let (s1, t) = showNotification ''Recipe unsaved successfully!'' Success s
      in (case call_action ''setSavedRecipesLoading'' setSavedRecipesLoading False s1 of
            Inl err \<Rightarrow> \<lparr>handler_store = s1, handler_timers = [t], handler_thrown = Some err\<rparr>
          | Inr s2 \<Rightarrow> \<lparr>handler_store = s2, handler_timers = [t], handler_thrown = None\<rparr>))"

text \<open>
  \<open>onError\<close> restores the captured list when it has a context, shows
  \<open>error.message || "Failed to unsave recipe."\<close> and calls \<open>setSavedRecipesLoading(false)\<close>.
\<close>

definition unsave_onError ::
  "(RecipeSummary list \<Rightarrow> AppState \<Rightarrow> AppState) option \<Rightarrow> (bool \<Rightarrow> AppState \<Rightarrow> AppState) option
     \<Rightarrow> exception \<Rightarrow> unsave_context option \<Rightarrow> AppState \<Rightarrow> handler_step" where
  "unsave_onError setSavedRecipes setSavedRecipesLoading err context s =
     (case (case context of
              None \<Rightarrow> Inr s
            | Some c \<Rightarrow> call_action ''setSavedRecipes'' setSavedRecipes (previousSavedRecipes c) s) of
        Inl thrown \<Rightarrow> \<lparr>handler_store = s, handler_timers = [], handler_thrown = Some thrown\<rparr>
      | Inr s1 \<Rightarrow>
          let (s2, t) = showNotification
                          (if exception_message err \<noteq> [] then exception_message err
                           else ''Failed to unsave recipe.'')
                          Error s1
          in (case call_action ''setSavedRecipesLoading'' setSavedRecipesLoading False s2 of
                Inl thrown \<Rightarrow>
                  \<lparr>handler_store = s2, handler_timers = [t], handler_thrown = Some thrown\<rparr>
              | Inr s3 \<Rightarrow>
                  \<lparr>handler_store = s3, handler_timers = [t], handler_thrown = None\<rparr>))"

text \<open>
  One run of the mutation, as the query library drives it: \<open>onMutate\<close>; when that throws,
  \<open>onError\<close> with the thrown error and no context, and \<open>mutationFn\<close> is not called; otherwise
  \<open>mutationFn\<close>, then \<open>onSuccess\<close>, or \<open>onError\<close> with the error and the context as soon as
  either of them throws.  The run records the store it ends in, the timers scheduled,
  whether the DELETE request was sent, and the error the mutation failed with.
\<close>

record mutation_run =
  run_store :: AppState
  run_timers :: "timer list"
  delete_sent :: bool
  failed_with :: "exception option"

definition unsaveRecipeMutation ::
  "(RecipeSummary list \<Rightarrow> AppState \<Rightarrow> AppState) option \<Rightarrow> (bool \<Rightarrow> AppState \<Rightarrow> AppState) option
     \<Rightarrow> int \<Rightarrow> unit http_outcome \<Rightarrow> AppState \<Rightarrow> mutation_run" where
  "unsaveRecipeMutation setSavedRecipes setSavedRecipesLoading recipeId outcome s =
     (let m = unsave_onMutate setSavedRecipes setSavedRecipesLoading recipeId s
      in case mutate_thrown m of
           Some err \<Rightarrow>
             let h = unsave_onError setSavedRecipes setSavedRecipesLoading err None (mutate_store m)
             in \<lparr>run_store = handler_store h, run_timers = handler_timers h,
                 delete_sent = False, failed_with = Some err\<rparr>
         | None \<Rightarrow>
             (case unsave_mutationFn outcome s of
                (sent, Some err) \<Rightarrow>
                  let h = unsave_onError setSavedRecipes setSavedRecipesLoading err
                            (mutate_context m) (mutate_store m)
                  in \<lparr>run_store = handler_store h, run_timers = handler_timers h,
                      delete_sent = sent, failed_with = Some err\<rparr>
              | (sent, None) \<Rightarrow>
                  let h = unsave_onSuccess setSavedRecipesLoading (mutate_store m)
                  in (case handler_thrown h of
                        None \<Rightarrow>
                          \<lparr>run_store = handler_store h, run_timers = handler_timers h,
                           delete_sent = sent, failed_with = None\<rparr>
                      | Some err \<Rightarrow>
                          let h' = unsave_onError setSavedRecipes setSavedRecipesLoading err
                                     (mutate_context m) (handler_store h)
                          in \<lparr>run_store = handler_store h',
                              run_timers = handler_timers h @ handler_timers h',
                              delete_sent = sent, failed_with = Some err\<rparr>)))"

section \<open>The profile-edit view (UV_UserProfileEdit)\<close>

text \<open>\<open>haystack.includes(needle)\<close>: the needle occurs in the haystack.\<close>

fun js_includes :: "string \<Rightarrow> string \<Rightarrow> bool" where
  "js_includes [] needle = (needle = [])"
| "js_includes (c # cs) needle = (take (length needle) (c # cs) = needle \<or> js_includes cs needle)"

text \<open>
  The profile query of the view runs only with a token.  Its \<open>queryFn\<close> awaits the store's
  \<open>loadUserProfile\<close>, then reads \<open>current_user_profile\<close> from the store and throws when there
  is none.
\<close>

definition profile_queryFn ::
  "UserProfile http_outcome \<Rightarrow> AppState \<Rightarrow> AppState \<times> (exception + UserProfile)" where
  "profile_queryFn outcome s =
     (let s1 = loadUserProfile outcome s
      in (s1, case current_user_profile s1 of
                None \<Rightarrow> Inl (JsError ''Failed to load user profile from store.'')
              | Some userProfile \<Rightarrow> Inr userProfile))"

text \<open>
  The effect that follows the query reads the store's profile and the error of the query
  (the view's \<open>profile_fetch_error\<close>, here \<open>query_error\<close>).  With a profile it fills the form; without one and with an error
  whose message includes \<open>401\<close> or \<open>Failed to load user profile\<close> it shows a notification,
  logs out and navigates to \<open>/login\<close>; with any other error it only shows it.  The result
  is the form state, the store, the timers scheduled and the navigation, if any.
\<close>

record ProfileFormState =
  pf_username :: string
  pf_first_name :: "string option"
  pf_last_name :: "string option"
  pf_current_password :: string
  pf_new_password :: string

record profile_edit_local =
  profile_data :: ProfileFormState
  profile_picture_preview :: "string option"

record profile_effect_result =
  effect_local :: profile_edit_local
  effect_store :: AppState
  effect_timers :: "timer list"
  effect_navigate :: "string option"

definition profile_edit_effect ::
  "exception option \<Rightarrow> profile_edit_local \<Rightarrow> AppState \<Rightarrow> profile_effect_result" where
  "profile_edit_effect query_error local s =
     (case current_user_profile s of
        Some currentUser \<Rightarrow>
          \<lparr>effect_local =
             \<lparr>profile_data =
                \<lparr>pf_username = username currentUser,
                 pf_first_name = first_name currentUser,
                 pf_last_name = last_name currentUser,
                 pf_current_password = [],
                 pf_new_password = []\<rparr>,
              profile_picture_preview =
                (if truthy (profile_picture_url currentUser) then profile_picture_url currentUser
                 else profile_picture_preview local)\<rparr>,
           effect_store = s, effect_timers = [], effect_navigate = None\<rparr>
      | None \<Rightarrow>
          (case query_error of
             None \<Rightarrow>
               \<lparr>effect_local = local, effect_store = s, effect_timers = [], effect_navigate = None\<rparr>
           | Some err \<Rightarrow>
               if js_includes (exception_message err) ''401''
                  \<or> js_includes (exception_message err) ''Failed to load user profile''
               then
                 let (s1, t) = showNotification
                       ''Session expired or authentication failed. Please log in again.'' Error s
                 in \<lparr>effect_local = local, effect_store = logout s1, effect_timers = [t],
                     effect_navigate = Some ''/login''\<rparr>
               else
                 let (s1, t) = showNotification
                       (''Error loading profile: '' @ exception_message err) Error s
                 in \<lparr>effect_local = local, effect_store = s1, effect_timers = [t],
                     effect_navigate = None\<rparr>))"

text \<open>
  The query hands what \<open>queryFn\<close> threw to the view as \<open>profile_fetch_error\<close>, and the effect
  runs with it on the store the query left.
\<close>

definition profile_query_then_effect ::
  "UserProfile http_outcome \<Rightarrow> profile_edit_local \<Rightarrow> AppState \<Rightarrow> profile_effect_result" where
  "profile_query_then_effect outcome local s =
     (case profile_queryFn outcome s of
        (s1, Inl err) \<Rightarrow> profile_edit_effect (Some err) local s1
      | (s1, Inr _) \<Rightarrow> profile_edit_effect None local s1)"

section \<open>The recipe view (UV_RecipeView): rating\<close>

text \<open>
  \<open>rateMutation\<close> reads \<open>is_authenticated\<close> and the recipe id parsed from the route
  (\<open>NaN\<close> is \<open>None\<close>), checks the rating, and only then calls the store's \<open>submitRating\<close>.
  The result records whether and with which arguments \<open>submitRating\<close> was called.  The
  invalidation and refetch of the query cache after a success are not part of the model.
\<close>

record rate_local_state =
  user_rating :: "int option"
  is_updating_rating :: bool

record rate_result =
  rate_returned :: bool
  submitRating_call :: "(int \<times> int) option"
  rate_local :: rate_local_state
  rate_store :: AppState
  rate_timers :: "timer list"

definition rateMutation ::
  "int option \<Rightarrow> int \<Rightarrow> rating_response http_outcome \<Rightarrow> rate_local_state \<Rightarrow> AppState
     \<Rightarrow> rate_result" where
  "rateMutation recipeIdNum rating outcome local s =
     (if \<not> is_authenticated s \<or> recipeIdNum = None then
        let (s1, t) = showNotification ''Please log in to rate recipes.'' Info s
        in \<lparr>rate_returned = False, submitRating_call = None, rate_local = local,
            rate_store = s1, rate_timers = [t]\<rparr>
      else if rating < 1 \<or> rating > 5 then
        let (s1, t) = showNotification ''Rating must be between 1 and 5.'' Error s
        in \<lparr>rate_returned = False, submitRating_call = None, rate_local = local,
            rate_store = s1, rate_timers = [t]\<rparr>
      else
        let local1 = local\<lparr>is_updating_rating := True\<rparr>;
            (success, s1, ts) = submitRating (the recipeIdNum) rating outcome s
        in if success then
             \<lparr>rate_returned = True, submitRating_call = Some (the recipeIdNum, rating),
              rate_local = local1\<lparr>user_rating := Some rating, is_updating_rating := False\<rparr>,
              rate_store = s1, rate_timers = ts\<rparr>
           else
             let (s2, t) = showNotification ''Failed to submit rating.'' Error s1
             in \<lparr>rate_returned = False, submitRating_call = Some (the recipeIdNum, rating),
                 rate_local = local1\<lparr>is_updating_rating := False\<rparr>,
                 rate_store = s2, rate_timers = ts @ [t]\<rparr>)"

section \<open>The ratings table (seed SQL)\<close>

text \<open>
  \<open>CREATE TABLE ratings\<close>: a serial primary key, \<open>recipe_id\<close>, \<open>user_id\<close> and \<open>rating\<close> of type
  \<open>INT NOT NULL\<close>, \<open>CHECK (rating >= 1 AND rating <= 5)\<close> and \<open>UNIQUE (recipe_id, user_id)\<close>.
  A table is the list of its rows together with the next value of the serial.  An
  \<open>INSERT\<close> or \<open>UPDATE\<close> that violates a constraint is rejected and leaves the table as it was.
  The tables the foreign keys refer to are not modelled, only the cascade of their deletes.
\<close>

record rating_row =
  rating_id :: int
  r_recipe_id :: int
  r_user_id :: int
  rating :: int

record ratings_table =
  rows :: "rating_row list"
  next_rating_id :: int

datatype sql_error = check_violation | unique_violation

definition rating_check :: "int \<Rightarrow> bool" where
  "rating_check v = (v \<ge> 1 \<and> v \<le> 5)"

definition same_pair :: "int \<Rightarrow> int \<Rightarrow> rating_row \<Rightarrow> bool" where
  "same_pair rid uid r = (r_recipe_id r = rid \<and> r_user_id r = uid)"

definition insert_rating :: "int \<Rightarrow> int \<Rightarrow> int \<Rightarrow> ratings_table \<Rightarrow> sql_error + ratings_table" where
  "insert_rating rid uid v t =
     (if \<not> rating_check v then Inl check_violation
      else if list_ex (same_pair rid uid) (rows t) then Inl unique_violation
      else Inr \<lparr>rows = rows t @ [\<lparr>rating_id = next_rating_id t, r_recipe_id = rid,
                                  r_user_id = uid, rating = v\<rparr>],
                next_rating_id = next_rating_id t + 1\<rparr>)"

text \<open>\<open>UPDATE ratings SET rating = v WHERE recipe_id = rid AND user_id = uid\<close>\<close>

definition update_rating :: "int \<Rightarrow> int \<Rightarrow> int \<Rightarrow> ratings_table \<Rightarrow> sql_error + ratings_table" where
  "update_rating rid uid v t =
     (if list_ex (same_pair rid uid) (rows t) \<and> \<not> rating_check v then Inl check_violation
      else Inr (t\<lparr>rows := map (\<lambda>r. if same_pair rid uid r then r\<lparr>rating := v\<rparr> else r) (rows t)\<rparr>))"

text \<open>\<open>DELETE FROM ratings WHERE recipe_id = rid AND user_id = uid\<close>\<close>

definition delete_rating :: "int \<Rightarrow> int \<Rightarrow> ratings_table \<Rightarrow> ratings_table" where
  "delete_rating rid uid t = t\<lparr>rows := filter (\<lambda>r. \<not> same_pair rid uid r) (rows t)\<rparr>"

text \<open>
  \<open>ON DELETE CASCADE\<close>: deleting a recipe or a user deletes the ratings that refer to it.
\<close>

definition cascade_recipe :: "int \<Rightarrow> ratings_table \<Rightarrow> ratings_table" where
  "cascade_recipe rid t = t\<lparr>rows := filter (\<lambda>r. r_recipe_id r \<noteq> rid) (rows t)\<rparr>"

definition cascade_user :: "int \<Rightarrow> ratings_table \<Rightarrow> ratings_table" where
  "cascade_user uid t = t\<lparr>rows := filter (\<lambda>r. r_user_id r \<noteq> uid) (rows t)\<rparr>"

datatype rating_statement =
    Insert int int int
  | Update int int int
  | Delete int int
  | Delete_recipe int
  | Delete_user int

fun execute :: "rating_statement \<Rightarrow> ratings_table \<Rightarrow> sql_error + ratings_table" where
  "execute (Insert rid uid v) t = insert_rating rid uid v t"
| "execute (Update rid uid v) t = update_rating rid uid v t"
| "execute (Delete rid uid) t = Inr (delete_rating rid uid t)"
| "execute (Delete_recipe rid) t = Inr (cascade_recipe rid t)"
| "execute (Delete_user uid) t = Inr (cascade_user uid t)"

text \<open>A rejected statement changes nothing; the next statement runs on the table as it was.\<close>

fun execute_all :: "rating_statement list \<Rightarrow> ratings_table \<Rightarrow> ratings_table" where
  "execute_all [] t = t"
| "execute_all (st # sts) t =
     execute_all sts (case execute st t of Inl _ \<Rightarrow> t | Inr t' \<Rightarrow> t')"

definition empty_ratings :: ratings_table where
  "empty_ratings = \<lparr>rows = [], next_rating_id = 1\<rparr>"

text \<open>What the claim says of the stored ratings.\<close>

definition ratings_invariant :: "ratings_table \<Rightarrow> bool" where
  "ratings_invariant t =
     (list_all (\<lambda>r. 1 \<le> rating r \<and> rating r \<le> 5) (rows t)
      \<and> distinct (map (\<lambda>r. (r_user_id r, r_recipe_id r)) (rows t)))"

text \<open>The rows of \<open>INSERT INTO ratings (recipe_id, user_id, rating) VALUES ...\<close>\<close>

definition seed_ratings :: "rating_statement list" where
  "seed_ratings =
     [Insert 1 1 5, Insert 1 2 4, Insert 2 1 5, Insert 2 3 4, Insert 3 2 5, Insert 3 4 4,
      Insert 4 3 5, Insert 4 1 4, Insert 5 4 5, Insert 5 2 5, Insert 6 5 4, Insert 6 1 3,
      Insert 7 1 5, Insert 7 3 4, Insert 8 2 5, Insert 8 4 4, Insert 9 3 5, Insert 9 5 4,
      Insert 10 4 5, Insert 10 1 5]"

section \<open>The recipe form (UV_SubmitRecipe)\<close>

text \<open>
  The numeric inputs of the form are typed \<open>number | null\<close> but hold \<open>''\<close> while the input is
  empty, so a numeric field is one of the three.  \<open>x <= 0\<close> and \<open>x < 0\<close> convert \<open>null\<close> and
  \<open>''\<close> to \<open>0\<close>.
\<close>

datatype form_number = EmptyString | Null | Number real

fun le_zero :: "form_number \<Rightarrow> bool" where
  "le_zero (Number r) = (r \<le> 0)"
| "le_zero _ = True"

fun lt_zero :: "form_number \<Rightarrow> bool" where
  "lt_zero (Number r) = (r < 0)"
| "lt_zero _ = False"

text \<open>
  \<open>String.prototype.trim\<close> removes white space from both ends.  Of the characters a
  \<open>char\<close> can hold these are white space: tab, line feed, vertical tab, form feed, carriage
  return, space and the no-break space.
\<close>

definition is_white_space :: "char \<Rightarrow> bool" where
  "is_white_space c = (of_char c \<in> {9, 10, 11, 12, 13, 32, 160 :: nat})"

definition trim :: "string \<Rightarrow> string" where
  "trim s = rev (dropWhile is_white_space (rev (dropWhile is_white_space s)))"

record File =
  file_name :: string
  file_type :: string
  file_size :: nat

record FormIngredient =
  ingredient_id :: "int option"
  quantity :: form_number
  unit :: "string option"
  name :: string

record FormInstruction =
  instruction_id :: "int option"
  step_number :: int
  instruction_description :: string

record RecipeFormData =
  f_title :: string
  f_description :: string
  f_cover_photo_file :: "File option"
  f_cover_photo_url :: "string option"
  f_prep_time_minutes :: form_number
  f_cook_time_minutes :: form_number
  f_servings :: form_number
  f_difficulty_level :: difficulty
  f_nutri_net_carbs_grams_per_serving :: form_number
  f_nutri_protein_grams_per_serving :: form_number
  f_nutri_fat_grams_per_serving :: form_number
  f_notes_tips :: "string option"
  f_ingredients :: "FormIngredient list"
  f_instructions :: "FormInstruction list"
  f_tags :: "string list"

record FormErrors =
  e_form :: "string option"
  e_title :: "string option"
  e_description :: "string option"
  e_cover_photo :: "string option"
  e_prep_time_minutes :: "string option"
  e_cook_time_minutes :: "string option"
  e_servings :: "string option"
  e_difficulty_level :: "string option"
  e_ingredients :: "string option"
  e_instructions :: "string option"
  e_nutri_net_carbs_grams_per_serving :: "string option"
  e_nutri_protein_grams_per_serving :: "string option"
  e_nutri_fat_grams_per_serving :: "string option"
  e_tags :: "string option"

text \<open>The state the form starts in (\<open>useState\<close>).\<close>

definition initial_recipe_form_data :: RecipeFormData where
  "initial_recipe_form_data =
     \<lparr>f_title = [], f_description = [], f_cover_photo_file = None, f_cover_photo_url = None,
      f_prep_time_minutes = Null, f_cook_time_minutes = Null, f_servings = Null,
      f_difficulty_level = Easy,
      f_nutri_net_carbs_grams_per_serving = Null, f_nutri_protein_grams_per_serving = Null,
      f_nutri_fat_grams_per_serving = Null, f_notes_tips = None,
      f_ingredients = [\<lparr>ingredient_id = None, quantity = EmptyString, unit = None, name = []\<rparr>],
      f_instructions = [\<lparr>instruction_id = None, step_number = 1, instruction_description = []\<rparr>],
      f_tags = []\<rparr>"

definition error_if :: "bool \<Rightarrow> string \<Rightarrow> string option" where
  "error_if failed msg = (if failed then Some msg else None)"

text \<open>The conditions of \<open>validate_recipe_form\<close>, in the order of the source.\<close>

definition title_missing :: "RecipeFormData \<Rightarrow> bool" where
  "title_missing d = (trim (f_title d) = [])"

definition description_missing :: "RecipeFormData \<Rightarrow> bool" where
  "description_missing d = (trim (f_description d) = [])"

definition cover_photo_missing :: "RecipeFormData \<Rightarrow> bool" where
  "cover_photo_missing d = (f_cover_photo_file d = None \<and> \<not> truthy (f_cover_photo_url d))"

definition not_positive :: "form_number \<Rightarrow> bool" where
  "not_positive x = (x = EmptyString \<or> le_zero x)"

definition ingredients_invalid :: "RecipeFormData \<Rightarrow> bool" where
  "ingredients_invalid d =
     (length (f_ingredients d) = 0
      \<or> list_ex (\<lambda>ing. trim (name ing) = [] \<or> quantity ing = EmptyString \<or> le_zero (quantity ing))
           (f_ingredients d))"

definition instructions_invalid :: "RecipeFormData \<Rightarrow> bool" where
  "instructions_invalid d =
     (length (f_instructions d) = 0
      \<or> list_ex (\<lambda>inst. trim (instruction_description inst) = []) (f_instructions d))"

definition negative :: "form_number \<Rightarrow> bool" where
  "negative x = (x \<noteq> EmptyString \<and> lt_zero x)"

text \<open>
  \<open>validate_recipe_form\<close> returns the errors it stores with \<open>set_form_errors\<close> and
  \<open>isValid\<close>.  Its argument is the \<open>recipe_form_data\<close> the callback reads.
\<close>

definition validate_recipe_form :: "RecipeFormData \<Rightarrow> FormErrors \<times> bool" where
  "validate_recipe_form d =
     (\<lparr>e_form = None,
       e_title = error_if (title_missing d) ''Recipe title is required.'',
       e_description = error_if (description_missing d) ''Recipe description is required.'',
       e_cover_photo = error_if (cover_photo_missing d) ''Recipe cover photo is required.'',
       e_prep_time_minutes = error_if (not_positive (f_prep_time_minutes d))
          ''Preparation time is required and must be positive.'',
       e_cook_time_minutes = error_if (not_positive (f_cook_time_minutes d))
          ''Cooking time is required and must be positive.'',
       e_servings = error_if (not_positive (f_servings d)) ''Servings is required and must be positive.'',
       e_difficulty_level = None,
       e_ingredients = error_if (ingredients_invalid d)
          ''At least one ingredient with quantity and name is required.'',
       e_instructions = error_if (instructions_invalid d) ''At least one instruction step is required.'',
       e_nutri_net_carbs_grams_per_serving =
          error_if (negative (f_nutri_net_carbs_grams_per_serving d)) ''Net carbs cannot be negative.'',
       e_nutri_protein_grams_per_serving =
          error_if (negative (f_nutri_protein_grams_per_serving d)) ''Protein cannot be negative.'',
       e_nutri_fat_grams_per_serving =
          error_if (negative (f_nutri_fat_grams_per_serving d)) ''Fat cannot be negative.'',
       e_tags = None\<rparr>,
      \<not> (title_missing d \<or> description_missing d \<or> cover_photo_missing d
         \<or> not_positive (f_prep_time_minutes d) \<or> not_positive (f_cook_time_minutes d)
         \<or> not_positive (f_servings d) \<or> ingredients_invalid d \<or> instructions_invalid d
         \<or> negative (f_nutri_net_carbs_grams_per_serving d)
         \<or> negative (f_nutri_protein_grams_per_serving d)
         \<or> negative (f_nutri_fat_grams_per_serving d)))"

text \<open>
  The multipart body of the request.  \<open>String(v)\<close> of a number or \<open>null\<close> is kept as
  \<open>StringOf v\<close>, and \<open>JSON.stringify\<close> of a list as the list itself.  In the body every
  ingredient and every instruction gets \<open>step_number: index + 1\<close>.
\<close>

record payload_ingredient = FormIngredient +
  ingredient_step_number :: int

datatype form_value =
    Text string
  | StringOf form_number
  | IngredientsJson "payload_ingredient list"
  | InstructionsJson "FormInstruction list"
  | TagsJson "string list"
  | FileValue File

definition zero_if_empty :: "form_number \<Rightarrow> form_number" where
  "zero_if_empty x = (if x = EmptyString then Number 0 else x)"

definition nutri_value :: "form_number \<Rightarrow> form_value" where
  "nutri_value x = (if x = EmptyString then Text [] else StringOf x)"

definition ingredients_payload :: "FormIngredient list \<Rightarrow> payload_ingredient list" where
  "ingredients_payload ings =
     map (\<lambda>(index, ing). FormIngredient.extend ing \<lparr>ingredient_step_number = int index + 1\<rparr>)
         (enumerate 0 ings)"

definition instructions_payload :: "FormInstruction list \<Rightarrow> FormInstruction list" where
  "instructions_payload insts =
     map (\<lambda>(index, inst). inst\<lparr>step_number := int index + 1\<rparr>) (enumerate 0 insts)"

definition dataForApi :: "RecipeFormData \<Rightarrow> (string \<times> form_value) list" where
  "dataForApi d =
     [(''title'', Text (f_title d)),
      (''description'', Text (f_description d)),
      (''prep_time_minutes'', StringOf (zero_if_empty (f_prep_time_minutes d))),
      (''cook_time_minutes'', StringOf (zero_if_empty (f_cook_time_minutes d))),
      (''servings'', StringOf (zero_if_empty (f_servings d))),
      (''difficulty_level'',
         Text (case f_difficulty_level d of Easy \<Rightarrow> ''Easy'' | Medium \<Rightarrow> ''Medium'' | Hard \<Rightarrow> ''Hard'')),
      (''nutri_net_carbs_grams_per_serving'', nutri_value (f_nutri_net_carbs_grams_per_serving d)),
      (''nutri_protein_grams_per_serving'', nutri_value (f_nutri_protein_grams_per_serving d)),
      (''nutri_fat_grams_per_serving'', nutri_value (f_nutri_fat_grams_per_serving d)),
      (''notes_tips'', Text (or_else (f_notes_tips d) [])),
      (''ingredients'', IngredientsJson (ingredients_payload (f_ingredients d))),
      (''instructions'', InstructionsJson (instructions_payload (f_instructions d))),
      (''tags'', TagsJson (f_tags d))]
     @ (case f_cover_photo_file d of None \<Rightarrow> [] | Some file \<Rightarrow> [(''cover_photo'', FileValue file)])"

text \<open>
  \<open>mutationFn\<close> sends \<open>PUT /recipes/{id}\<close> when editing a recipe with a non-zero id and
  \<open>POST /recipes\<close> otherwise.
\<close>

datatype recipe_request = Put int "(string \<times> form_value) list" | Post "(string \<times> form_value) list"

definition mutation_request :: "bool \<Rightarrow> int option \<Rightarrow> RecipeFormData \<Rightarrow> recipe_request" where
  "mutation_request is_editing current_recipe_id formData =
     (if is_editing \<and> current_recipe_id \<noteq> None \<and> current_recipe_id \<noteq> Some 0
      then Put (the current_recipe_id) (dataForApi formData)
      else Post (dataForApi formData))"

fun request_body :: "recipe_request \<Rightarrow> (string \<times> form_value) list" where
  "request_body (Put _ body) = body"
| "request_body (Post body) = body"

text \<open>
  \<open>handle_recipe_submit\<close> validates and, when the form is valid, calls
  \<open>mutation.mutate(recipe_form_data)\<close>.  \<open>validate_recipe_form\<close> is memoised with an empty
  dependency list, so the form data it reads (\<open>seen\<close>) need not be the data of the current
  render (\<open>current\<close>) that goes to the mutation.  The result is the errors stored and the
  request sent, if any.
\<close>

definition handle_recipe_submit ::
  "bool \<Rightarrow> int option \<Rightarrow> RecipeFormData \<Rightarrow> RecipeFormData \<Rightarrow> FormErrors \<times> recipe_request option" where
  "handle_recipe_submit is_editing current_recipe_id seen current =
     (let (errors, isValid) = validate_recipe_form seen
      in (errors,
          if isValid then Some (mutation_request is_editing current_recipe_id current) else None))"

section \<open>URL query parameters\<close>

text \<open>
  A \<open>URLSearchParams\<close> object is the list of its name-value pairs in order.  \<open>set\<close>
  overwrites the first pair of that name and removes the others, or appends; \<open>delete\<close>
  removes every pair of that name; \<open>get\<close> reads the first one.
\<close>

type_synonym URLSearchParams = "(string \<times> string) list"


definition usp_delete :: "string \<Rightarrow> URLSearchParams \<Rightarrow> URLSearchParams" where
  "usp_delete k ps = filter (\<lambda>p. fst p \<noteq> k) ps"

fun usp_set :: "string \<Rightarrow> string \<Rightarrow> URLSearchParams \<Rightarrow> URLSearchParams" where
  "usp_set k v [] = [(k, v)]"
| "usp_set k v (p # ps) = (if fst p = k then (k, v) # usp_delete k ps else p # usp_set k v ps)"



text \<open>\<open>String(n)\<close> for an integer \<open>n\<close>: its decimal digits, with a minus sign when negative.\<close>

fun string_of_nat :: "nat \<Rightarrow> string" where
  "string_of_nat n =
     (if n < 10 then [''0123456789'' ! n]
      else string_of_nat (n div 10) @ [''0123456789'' ! (n mod 10)])"

definition String_int :: "int \<Rightarrow> string" where
  "String_int i = (if i < 0 then CHR ''-'' # string_of_nat (nat (- i)) else string_of_nat (nat i))"

section \<open>The browse view (UV_BrowseRecipes)\<close>

text \<open>
  The state a handler of the view reads and writes: the local filter, sort and page state
  (\<open>useState\<close>), the URL query parameters (\<open>useSearchParams\<close>), the pagination of the last
  response of the recipes query, if there is one, and the global store.
\<close>

record browse_view =
  localFilterParams :: FilterParams
  localSortOrder :: string
  currentPage :: int
  searchParams :: URLSearchParams
  recipes_pagination :: "PaginationInfo option"
  store :: AppState

text \<open>\<open>recipesQuery.data?.pagination || { total_items: 0, total_pages: 0, ... }\<close>\<close>

definition pagination_info :: "browse_view \<Rightarrow> PaginationInfo" where
  "pagination_info v =
     (case recipes_pagination v of
        Some p \<Rightarrow> p
      | None \<Rightarrow> \<lparr>total_items = 0, total_pages = 0, current_page = 1, items_per_page = 10\<rparr>)"





definition browse_handlePageChange :: "int \<Rightarrow> browse_view \<Rightarrow> browse_view" where
  "browse_handlePageChange page v =
     (if page \<ge> 1 \<and> page \<le> total_pages (pagination_info v)
      then v\<lparr>currentPage := page,
             store := setPage page (store v),
             searchParams := usp_set ''page'' (String_int page) (searchParams v)\<rparr>
      else v)"

section \<open>The search-results view (UV_SearchResults)\<close>

record search_view =
  local_filter_params :: FilterParams
  local_sort_order :: string
  local_page :: int
  search_searchParams :: URLSearchParams
  searchResults :: "PaginatedRecipesResponse option"
  search_store :: AppState

text \<open>\<open>handlePageChange\<close> returns at once while the query has no data.\<close>

definition search_handlePageChange :: "int \<Rightarrow> search_view \<Rightarrow> search_view" where
  "search_handlePageChange pageNumber v =
     (case searchResults v of
        None \<Rightarrow> v
      | Some results \<Rightarrow>
          if pageNumber > 0 \<and> pageNumber \<le> total_pages (pagination results)
          then v\<lparr>local_page := pageNumber,
                 search_store := setPage pageNumber (search_store v),
                 search_searchParams :=
                   usp_set ''page'' (String_int pageNumber) (search_searchParams v)\<rparr>
          else v)"

text \<open>
  The pagination the view renders:
  \<open>searchResults?.pagination || { total_items: 0, total_pages: 0, ... }\<close>
\<close>

definition search_pagination :: "search_view \<Rightarrow> PaginationInfo" where
  "search_pagination v =
     (case searchResults v of
        Some results \<Rightarrow> pagination results
      | None \<Rightarrow> \<lparr>total_items = 0, total_pages = 0, current_page = 1, items_per_page = 10\<rparr>)"

section \<open>What a failed mutation action reports\<close>

text \<open>
  The message of a failure as a sentence of three cases: the \<open>error\<close> field of the response
  body when it is present and not empty; otherwise the message of the exception when that is
  not empty; otherwise the text the action supplies.  \<open>error_toast\<close> is the store with an
  error notification of that message, and the timer scheduled for it.
\<close>

definition reported_message :: "http_error \<Rightarrow> string \<Rightarrow> string" where
  "reported_message e fallback =
     (case err_data_error e of
        Some field \<Rightarrow>
          if field \<noteq> [] then field
          else if err_message e \<noteq> [] then err_message e else fallback
      | None \<Rightarrow> if err_message e \<noteq> [] then err_message e else fallback)"

definition error_toast :: "string \<Rightarrow> AppState \<Rightarrow> AppState \<times> timer list" where
  "error_toast msg s =
     (s\<lparr>notification := Some \<lparr>message = msg, ntype = Error\<rparr>\<rparr>,
      [\<lparr>delay_ms = 3000, captured_message = msg\<rparr>])"

section \<open>Concrete states\<close>

text \<open>
  The state the store is created with (a field the initialiser leaves out is \<open>None\<close>, empty
  or \<open>False\<close>), a session, and the inputs at which the theorems below are instantiated.
\<close>

definition initial_state :: AppState where
  "initial_state =
     \<lparr>is_authenticated = False, access_token = None, user_profile_summary = None,
      auth_error = None, loading_auth = False,
      paginated_recipes =
        \<lparr>recipes = [],
         pagination = \<lparr>total_items = 0, total_pages = 0, current_page = 1, items_per_page = 10\<rparr>\<rparr>,
      current_recipe_details = None, recipe_fetch_error = None, recipe_loading = False,
      filter_params = \<lparr>fp_tags = [], fp_difficulty = [], max_prep_time = None,
                       max_cook_time = None, min_rating = None\<rparr>,
      sort_order = ''newest'', search_query = [],
      current_user_profile = None, saved_recipes = [], saved_recipes_loading = False,
      profile_fetch_error = None, public_user_profile = None,
      modal_open = None, notification = None\<rparr>"

definition stir_fry :: RecipeSummary where
  "stir_fry =
     \<lparr>recipe_id = 1, title = ''Keto Chicken Stir-Fry'', description = ''Quick stir-fry'',
      cover_photo_url = [], prep_time_minutes = 15, cook_time_minutes = 20,
      difficulty_level = Easy, average_rating = None, rs_user_id = 1,
      rs_username = ''alex_runner'', tags = [], saved_at = None\<rparr>"

definition brownies :: RecipeSummary where
  "brownies =
     \<lparr>recipe_id = 4, title = ''Fat Bomb Brownies'', description = ''Keto brownies'',
      cover_photo_url = [], prep_time_minutes = 20, cook_time_minutes = 25,
      difficulty_level = Medium, average_rating = None, rs_user_id = 3,
      rs_username = ''keto_guru'', tags = [], saved_at = None\<rparr>"

definition logged_in_state :: AppState where
  "logged_in_state =
     initial_state\<lparr>is_authenticated := True, access_token := Some ''token'',
       user_profile_summary :=
         Some \<lparr>user_id = 1, username = ''alex_runner'', profile_picture_url = None\<rparr>,
       saved_recipes := [stir_fry, brownies]\<rparr>"

definition unauthorized :: http_error where
  "unauthorized =
     \<lparr>err_status = Some 401, err_data_error = Some ''Invalid token'',
      err_message = ''Request failed with status code 401''\<rparr>"

definition empty_error_field :: http_error where
  "empty_error_field =
     \<lparr>err_status = Some 500, err_data_error = Some [],
      err_message = ''Request failed with status code 500''\<rparr>"

definition three_pages :: PaginationInfo where
  "three_pages = \<lparr>total_items = 25, total_pages = 3, current_page = 1, items_per_page = 10\<rparr>"

definition browsing :: browse_view where
  "browsing =
     \<lparr>localFilterParams =
        \<lparr>fp_tags = [''Breakfast'', ''Snacks''], fp_difficulty = [], max_prep_time = Some 30,
         max_cook_time = None, min_rating = None\<rparr>,
      localSortOrder = ''rating'', currentPage = 1, searchParams = [],
      recipes_pagination = Some three_pages, store = initial_state\<rparr>"


definition empty_profile_form :: profile_edit_local where
  "empty_profile_form =
     \<lparr>profile_data = \<lparr>pf_username = [], pf_first_name = None, pf_last_name = None,
                       pf_current_password = [], pf_new_password = []\<rparr>,
      profile_picture_preview = None\<rparr>"

definition searching :: search_view where
  "searching =
     \<lparr>local_filter_params = filter_params initial_state, local_sort_order = ''newest'',
      local_page = 1, search_searchParams = [(''q'', ''salmon'')],
      searchResults = Some \<lparr>recipes = [], pagination = three_pages\<rparr>,
      search_store = initial_state\<rparr>"

definition blank_title_form :: RecipeFormData where
  "blank_title_form = initial_recipe_form_data\<lparr>f_title := ''  '', f_description := ''Creamy''\<rparr>"

section \<open>Logout\<close>

text \<open>
  Claim C8, as amended.  \<open>logout\<close> sets \<open>is_authenticated\<close> to false, \<open>access_token\<close>,
  \<open>user_profile_summary\<close> and \<open>current_user_profile\<close> to null, \<open>saved_recipes\<close> to the empty
  list, \<open>auth_error\<close> to null and \<open>loading_auth\<close> to false, and leaves every other field of the
  store as it was: the recipe list and its pagination, the recipe on display, the fetch
  error and loading flag of the recipes, \<open>filter_params\<close>, \<open>sort_order\<close>, \<open>search_query\<close>, the
  loading flag of the saved recipes, the profile fetch error, the public profile, the modal
  and the notification.
\<close>

theorem logout_effect_and_frame:
  "is_authenticated (logout s) = False
   \<and> access_token (logout s) = None
   \<and> user_profile_summary (logout s) = None
   \<and> current_user_profile (logout s) = None
   \<and> saved_recipes (logout s) = []
   \<and> auth_error (logout s) = None
   \<and> loading_auth (logout s) = False
   \<and> paginated_recipes (logout s) = paginated_recipes s
   \<and> current_recipe_details (logout s) = current_recipe_details s
   \<and> recipe_fetch_error (logout s) = recipe_fetch_error s
   \<and> recipe_loading (logout s) = recipe_loading s
   \<and> filter_params (logout s) = filter_params s
   \<and> sort_order (logout s) = sort_order s
   \<and> search_query (logout s) = search_query s
   \<and> saved_recipes_loading (logout s) = saved_recipes_loading s
   \<and> profile_fetch_error (logout s) = profile_fetch_error s
   \<and> public_user_profile (logout s) = public_user_profile s
   \<and> modal_open (logout s) = modal_open s
   \<and> notification (logout s) = notification s"
  by (simp add: logout_def)

text \<open>
  Claim C8 as it was stated counts \<open>loading_auth\<close> among the fields that keep their value.
  A logout while a request of the session is in flight (\<open>loading_auth\<close> is true) resets it.
\<close>

theorem logout_resets_loading_auth:
  "loading_auth (logged_in_state\<lparr>loading_auth := True\<rparr>) = True
   \<and> loading_auth (logout (logged_in_state\<lparr>loading_auth := True\<rparr>)) = False"
  by (simp add: logout_def)

section \<open>Notifications and their timer\<close>

text \<open>
  Claim C10.  \<open>showNotification\<close> displays the notification and schedules one timer of 3000
  milliseconds.  When the timer fires in a later state of the store, a notification whose
  message differs from the one shown is left in place with the whole state; in every other
  case the state that results has no notification and is otherwise the later state.  In
  particular the notification is cleared when nothing replaced it.
\<close>

theorem notification_timer_clears_own_message:
  "delay_ms (snd (showNotification msg ty s)) = 3000
   \<and> notification (fst (showNotification msg ty s)) = Some \<lparr>message = msg, ntype = ty\<rparr>
   \<and> notification (timer_callback (snd (showNotification msg ty s))
                                   (fst (showNotification msg ty s))) = None
   \<and> timer_callback (snd (showNotification msg ty s)) later =
       (if (\<exists>n. notification later = Some n \<and> message n \<noteq> msg) then later
        else later\<lparr>notification := None\<rparr>)"
  by (auto simp: showNotification_def timer_callback_def split: option.splits)

section \<open>Failures of the mutation actions\<close>

lemma errorMessage_reported: "errorMessage e fallback = reported_message e fallback"
  by (simp add: errorMessage_def reported_message_def truthy_def split: option.splits)

text \<open>
  Claim C7, as amended.  When the request of \<open>submitRating\<close>, \<open>postComment\<close>, \<open>saveRecipe\<close>,
  \<open>unsaveRecipe\<close> or \<open>deleteComment\<close> fails, the action returns its failure value (\<open>false\<close>, or
  \<open>null\<close> for \<open>postComment\<close>) and shows an error notification whose message is the \<open>error\<close>
  field of the response body when that field is present and not empty, otherwise the
  message of the exception when that is not empty, otherwise the default text of the action;
  nothing else in the store changes.
\<close>

theorem failed_mutation_reports_error:
  assumes "truthy (access_token s)"
  shows "submitRating rid stars (Failed e) s
           = (False, error_toast (reported_message e ''Failed to submit rating'') s)
    \<and> postComment rid body (Failed e) s
           = (None, error_toast (reported_message e ''Failed to post comment'') s)
    \<and> saveRecipe rid now (Failed e) s
           = (False, error_toast (reported_message e ''Failed to save recipe'') s)
    \<and> unsaveRecipe rid (Failed e) s
           = (False, error_toast (reported_message e ''Failed to unsave recipe'') s)
    \<and> deleteComment cid (Failed e) s
           = (False, error_toast (reported_message e ''Failed to delete comment'') s)"
  using assms
  by (simp add: submitRating_def postComment_def saveRecipe_def unsaveRecipe_def deleteComment_def
      error_toast_def showNotification_def errorMessage_reported)

theorem failed_mutation_reports_error_witness:
  "truthy (access_token logged_in_state)
   \<and> fst (submitRating 1 5 (Failed unauthorized) logged_in_state) = False
   \<and> map_option message
        (notification (fst (snd (submitRating 1 5 (Failed unauthorized) logged_in_state))))
       = Some ''Invalid token''
   \<and> fst (postComment 1 ''Great'' (Failed unauthorized) logged_in_state) = None"
proof -
  have t: "truthy (access_token logged_in_state)"
    by (simp add: truthy_def logged_in_state_def)
  show ?thesis
    using failed_mutation_reports_error [OF t, of 1 5 unauthorized "''Great''"] t
    by (simp add: error_toast_def reported_message_def unauthorized_def)
qed

text \<open>
  Claim C7 as it was stated takes the message from the \<open>error\<close> field whenever the field is
  present.  A body whose \<open>error\<close> field is the empty string has the field, and the
  notification shows the message of the exception.
\<close>

theorem empty_error_field_is_not_shown:
  "err_data_error empty_error_field = Some []
   \<and> map_option message
        (notification (fst (snd (submitRating 1 5 (Failed empty_error_field) logged_in_state))))
       = Some ''Request failed with status code 500''"
  by (simp add: submitRating_def showNotification_def errorMessage_def truthy_def
      empty_error_field_def logged_in_state_def initial_state_def)

section \<open>Requests that fail with status 401\<close>

lemma js_includes_prefix: "js_includes (needle @ rest) needle"
proof (cases "needle @ rest")
  case Nil
  then show ?thesis by simp
next
  case (Cons c cs)
  have "take (length needle) (needle @ rest) = needle"
    by simp
  with Cons show ?thesis
    by simp
qed

lemma store_error_names_profile:
  "js_includes ''Failed to load user profile from store.'' ''Failed to load user profile''"
proof -
  have "''Failed to load user profile from store.''
          = ''Failed to load user profile'' @ '' from store.''"
    by simp
  then show ?thesis
    by (simp only: js_includes_prefix)
qed

text \<open>
  Claim C2, as amended.  When the request of \<open>loadUserProfile\<close> or of \<open>fetchSavedRecipes\<close> fails
  with status 401, the store is logged out: \<open>is_authenticated\<close> is false, \<open>access_token\<close>,
  \<open>user_profile_summary\<close> and \<open>current_user_profile\<close> are null and \<open>saved_recipes\<close> is empty.
  When it is the profile query of the profile-edit view that made the \<open>loadUserProfile\<close>
  request, the query fails for want of a profile in the store, and the effect of the view
  then navigates to \<open>/login\<close> and leaves the store logged out.
\<close>

theorem unauthorized_fetch_logs_out:
  assumes "truthy (access_token s)" and "err_status e = Some 401"
  shows "is_authenticated (loadUserProfile (Failed e) s) = False
    \<and> access_token (loadUserProfile (Failed e) s) = None
    \<and> user_profile_summary (loadUserProfile (Failed e) s) = None
    \<and> current_user_profile (loadUserProfile (Failed e) s) = None
    \<and> saved_recipes (loadUserProfile (Failed e) s) = []
    \<and> is_authenticated (snd (fetchSavedRecipes (Failed e) s)) = False
    \<and> access_token (snd (fetchSavedRecipes (Failed e) s)) = None
    \<and> user_profile_summary (snd (fetchSavedRecipes (Failed e) s)) = None
    \<and> current_user_profile (snd (fetchSavedRecipes (Failed e) s)) = None
    \<and> saved_recipes (snd (fetchSavedRecipes (Failed e) s)) = []
    \<and> snd (profile_queryFn (Failed e) s)
         = Inl (JsError ''Failed to load user profile from store.'')
    \<and> effect_navigate (profile_query_then_effect (Failed e) form s) = Some ''/login''
    \<and> is_authenticated (effect_store (profile_query_then_effect (Failed e) form s)) = False
    \<and> access_token (effect_store (profile_query_then_effect (Failed e) form s)) = None"
proof -
  have out: "is_authenticated (loadUserProfile (Failed e) s) = False
    \<and> access_token (loadUserProfile (Failed e) s) = None
    \<and> user_profile_summary (loadUserProfile (Failed e) s) = None
    \<and> current_user_profile (loadUserProfile (Failed e) s) = None
    \<and> saved_recipes (loadUserProfile (Failed e) s) = []"
    using assms by (simp add: loadUserProfile_def logout_def truthy_def Let_def)
  have saved: "is_authenticated (snd (fetchSavedRecipes (Failed e) s)) = False
    \<and> access_token (snd (fetchSavedRecipes (Failed e) s)) = None
    \<and> user_profile_summary (snd (fetchSavedRecipes (Failed e) s)) = None
    \<and> current_user_profile (snd (fetchSavedRecipes (Failed e) s)) = None
    \<and> saved_recipes (snd (fetchSavedRecipes (Failed e) s)) = []"
    using assms by (simp add: fetchSavedRecipes_def logout_def truthy_def Let_def)
  have query: "profile_queryFn (Failed e) s
      = (loadUserProfile (Failed e) s, Inl (JsError ''Failed to load user profile from store.''))"
    using out by (simp add: profile_queryFn_def Let_def)
  have effect: "effect_navigate (profile_query_then_effect (Failed e) form s) = Some ''/login''
    \<and> is_authenticated (effect_store (profile_query_then_effect (Failed e) form s)) = False
    \<and> access_token (effect_store (profile_query_then_effect (Failed e) form s)) = None"
    using out store_error_names_profile
    by (simp add: profile_query_then_effect_def query profile_edit_effect_def
        showNotification_def logout_def)
  from out saved query effect show ?thesis
    by simp
qed

theorem unauthorized_fetch_logs_out_witness:
  "truthy (access_token logged_in_state) \<and> err_status unauthorized = Some 401
   \<and> is_authenticated (loadUserProfile (Failed unauthorized) logged_in_state) = False
   \<and> access_token (loadUserProfile (Failed unauthorized) logged_in_state) = None
   \<and> saved_recipes (snd (fetchSavedRecipes (Failed unauthorized) logged_in_state)) = []
   \<and> effect_navigate
        (profile_query_then_effect (Failed unauthorized) empty_profile_form logged_in_state)
       = Some ''/login''"
proof -
  have t: "truthy (access_token logged_in_state)"
    by (simp add: truthy_def logged_in_state_def)
  have u: "err_status unauthorized = Some 401"
    by (simp add: unauthorized_def)
  show ?thesis
    using unauthorized_fetch_logs_out [OF t u, of empty_profile_form] t u by simp
qed

text \<open>
  Claim C2 as it was stated speaks of every request.  \<open>submitRating\<close> does not look at the
  status: after a 401 the user is still authenticated, and the token and the saved recipes
  are still there.
\<close>

theorem unauthorized_rating_keeps_session:
  "err_status unauthorized = Some 401
   \<and> is_authenticated (fst (snd (submitRating 1 5 (Failed unauthorized) logged_in_state))) = True
   \<and> access_token (fst (snd (submitRating 1 5 (Failed unauthorized) logged_in_state)))
       = Some ''token''
   \<and> saved_recipes (fst (snd (submitRating 1 5 (Failed unauthorized) logged_in_state)))
       = [stir_fry, brownies]"
  by (simp add: submitRating_def showNotification_def truthy_def
      unauthorized_def logged_in_state_def initial_state_def)

section \<open>Unsaving from the saved-recipes view\<close>

text \<open>
  Claim C1 asks that the unsave mutation first removes the entries of the recipe from
  \<open>saved_recipes\<close> and restores the captured list when the DELETE request fails.  With the
  functions the view gets from the store, a click on Unsave for recipe 1 while recipes 1 and
  4 are saved goes otherwise: \<open>onMutate\<close> throws at the call of \<open>setSavedRecipes\<close>, so nothing
  is removed and no context is captured; the mutation fails with that \<open>TypeError\<close> and
  never sends the DELETE request; \<open>onError\<close> shows the message of the \<open>TypeError\<close>; and
  \<open>saved_recipes\<close> is the same list throughout.
\<close>

theorem unsave_removes_nothing_and_sends_no_delete:
  "saved_recipes logged_in_state = [stir_fry, brownies]
   \<and> saved_recipes (mutate_store (unsave_onMutate store_setSavedRecipes
                        store_setSavedRecipesLoading 1 logged_in_state))
       = [stir_fry, brownies]
   \<and> mutate_context (unsave_onMutate store_setSavedRecipes store_setSavedRecipesLoading 1
                        logged_in_state) = None
   \<and> mutate_thrown (unsave_onMutate store_setSavedRecipes store_setSavedRecipesLoading 1
                        logged_in_state) = Some (not_a_function ''setSavedRecipes'')
   \<and> delete_sent (unsaveRecipeMutation store_setSavedRecipes store_setSavedRecipesLoading 1
                     (Failed unauthorized) logged_in_state) = False
   \<and> failed_with (unsaveRecipeMutation store_setSavedRecipes store_setSavedRecipesLoading 1
                     (Failed unauthorized) logged_in_state)
       = Some (not_a_function ''setSavedRecipes'')
   \<and> saved_recipes (run_store (unsaveRecipeMutation store_setSavedRecipes
                       store_setSavedRecipesLoading 1 (Failed unauthorized) logged_in_state))
       = [stir_fry, brownies]
   \<and> map_option message (notification (run_store (unsaveRecipeMutation store_setSavedRecipes
                       store_setSavedRecipesLoading 1 (Failed unauthorized) logged_in_state)))
       = Some (exception_message (not_a_function ''setSavedRecipes''))"
  by (simp add: unsaveRecipeMutation_def unsave_onMutate_def unsave_onError_def call_action_def
      store_setSavedRecipes_def store_setSavedRecipesLoading_def not_a_function_def
      showNotification_def logged_in_state_def initial_state_def)

section \<open>Validation of the recipe form\<close>

lemma dropWhile_all: "list_all P s \<Longrightarrow> dropWhile P s = []"
  by (induction s) auto

lemma trim_blank: "list_all is_white_space s \<Longrightarrow> trim s = []"
  by (simp add: trim_def dropWhile_all)

text \<open>
  Claim C3.  When the form is submitted while every character of the title is white space
  (the empty title included), the title error is \<open>Recipe title is required.\<close>, the form is
  reported invalid and no request is made.  This holds whether the validation reads the form
  data of the current render or, as its empty dependency list makes it, the data the form
  started with.
\<close>

theorem blank_title_is_rejected:
  assumes "list_all is_white_space (f_title current)"
    and "seen = current \<or> seen = initial_recipe_form_data"
  shows "e_title (fst (handle_recipe_submit is_editing current_recipe_id seen current))
           = Some ''Recipe title is required.''
    \<and> snd (validate_recipe_form seen) = False
    \<and> snd (handle_recipe_submit is_editing current_recipe_id seen current) = None"
proof -
  have "trim (f_title seen) = []"
    using assms by (auto simp: trim_blank initial_recipe_form_data_def)
  then show ?thesis
    by (simp add: handle_recipe_submit_def validate_recipe_form_def title_missing_def error_if_def)
qed

theorem blank_title_is_rejected_witness:
  "list_all is_white_space (f_title blank_title_form)
   \<and> e_title (fst (handle_recipe_submit False None blank_title_form blank_title_form))
           = Some ''Recipe title is required.''
   \<and> snd (validate_recipe_form blank_title_form) = False
   \<and> snd (handle_recipe_submit False None blank_title_form blank_title_form) = None"
proof -
  have a: "list_all is_white_space (f_title blank_title_form)"
    by (simp add: blank_title_form_def is_white_space_def)
  have b: "blank_title_form = blank_title_form \<or> blank_title_form = initial_recipe_form_data"
    by simp
  show ?thesis
    using blank_title_is_rejected [OF a b] a by simp
qed

section \<open>Step numbers of a submitted recipe\<close>

lemma length_instructions_payload: "length (instructions_payload xs) = length xs"
  by (simp add: instructions_payload_def)

lemma nth_instructions_payload:
  "i < length xs \<Longrightarrow> step_number (instructions_payload xs ! i) = int i + 1"
  by (simp add: instructions_payload_def nth_enumerate_eq)

lemma instructions_payload_steps:
  "map step_number (instructions_payload xs) = [1..int (length xs)]"
proof (rule nth_equalityI)
  show "length (map step_number (instructions_payload xs)) = length [1..int (length xs)]"
    by (simp add: length_instructions_payload)
next
  fix i
  assume "i < length (map step_number (instructions_payload xs))"
  then have i: "i < length xs"
    by (simp add: length_instructions_payload)
  then show "map step_number (instructions_payload xs) ! i = [1..int (length xs)] ! i"
    by (simp add: length_instructions_payload nth_instructions_payload)
qed

lemma distinct_with_recipe:
  "distinct (map (\<lambda>x. (rid, f x)) xs) = distinct (map f xs)"
proof -
  have "map (\<lambda>x. (rid, f x)) xs = map (Pair rid) (map f xs)"
    by simp
  then show ?thesis
    by (simp only: distinct_map [of "Pair rid"]) (simp add: inj_on_def)
qed

text \<open>
  Claim C6.  The request the form sends, a PUT or a POST, carries under \<open>instructions\<close> the
  instructions of the form with their step numbers reassigned; these step numbers are
  \<open>1, ..., n\<close> in order for a form of \<open>n\<close> instructions, so they are pairwise distinct, and
  so are the pairs of the recipe's id with a step number, which is what
  \<open>UNIQUE (recipe_id, step_number)\<close> asks of the rows of one recipe.
\<close>

theorem submitted_step_numbers_are_consecutive:
  "map_of (request_body (mutation_request is_editing current_recipe_id d)) ''instructions''
      = Some (InstructionsJson (instructions_payload (f_instructions d)))
   \<and> map step_number (instructions_payload (f_instructions d))
      = [1..int (length (f_instructions d))]
   \<and> distinct (map step_number (instructions_payload (f_instructions d)))
   \<and> distinct (map (\<lambda>inst. (rid, step_number inst)) (instructions_payload (f_instructions d)))"
  by (simp add: instructions_payload_steps distinct_with_recipe dataForApi_def
      mutation_request_def)

section \<open>Ratings\<close>

lemma insert_rating_invariant:
  "ratings_invariant t \<Longrightarrow> insert_rating rid uid v t = Inr t' \<Longrightarrow> ratings_invariant t'"
  by (auto simp: ratings_invariant_def insert_rating_def rating_check_def same_pair_def
      list_ex_iff list_all_iff split: if_splits)

lemma update_rating_keys:
  "map ((\<lambda>r. (r_user_id r, r_recipe_id r))
          \<circ> (\<lambda>r. if same_pair rid uid r then r\<lparr>rating := v\<rparr> else r)) rs
     = map (\<lambda>r. (r_user_id r, r_recipe_id r)) rs"
  by (induction rs) auto

lemma update_rating_invariant:
  "ratings_invariant t \<Longrightarrow> update_rating rid uid v t = Inr t' \<Longrightarrow> ratings_invariant t'"
  by (auto simp: ratings_invariant_def update_rating_def rating_check_def update_rating_keys
      list_ex_iff list_all_iff split: if_splits)

lemma delete_rating_invariant:
  "ratings_invariant t \<Longrightarrow> ratings_invariant (delete_rating rid uid t)"
  by (auto simp: ratings_invariant_def delete_rating_def list_all_iff distinct_map_filter)

lemma cascade_invariant:
  "ratings_invariant t \<Longrightarrow> ratings_invariant (cascade_recipe rid t)"
  "ratings_invariant t \<Longrightarrow> ratings_invariant (cascade_user uid t)"
  by (auto simp: ratings_invariant_def cascade_recipe_def cascade_user_def list_all_iff
      distinct_map_filter)

lemma execute_invariant:
  "ratings_invariant t \<Longrightarrow> execute st t = Inr t' \<Longrightarrow> ratings_invariant t'"
  by (cases st) (auto dest: insert_rating_invariant update_rating_invariant
      simp: delete_rating_invariant cascade_invariant)

lemma execute_all_invariant:
  "ratings_invariant t \<Longrightarrow> ratings_invariant (execute_all sts t)"
proof (induction sts arbitrary: t)
  case Nil
  then show ?case by simp
next
  case (Cons st sts)
  show ?case
  proof (cases "execute st t")
    case (Inl err)
    with Cons show ?thesis by simp
  next
    case (Inr t')
    with Cons.prems have "ratings_invariant t'"
      by (rule execute_invariant)
    with Cons.IH Inr show ?thesis by simp
  qed
qed

lemma empty_ratings_invariant: "ratings_invariant empty_ratings"
  by (simp add: ratings_invariant_def empty_ratings_def)

lemma seed_ratings_accepted:
  "length (rows (execute_all seed_ratings empty_ratings)) = 20"
  by (simp add: seed_ratings_def empty_ratings_def insert_rating_def rating_check_def
      same_pair_def)

text \<open>
  Claim C4.  Whatever statements run on the ratings table, starting from the empty table,
  every stored rating is an integer from 1 to 5 and no two rows have the same user and
  recipe: an insert or update of a value outside that range is rejected by the check, and an
  insert for a pair that already has a row is rejected.  In the client, \<open>rateMutation\<close> with a
  rating below 1 or above 5 returns false and does not call \<open>submitRating\<close>.
\<close>

theorem ratings_are_one_to_five_and_unique:
  assumes "stars < 1 \<or> stars > 5"
    and "list_ex (same_pair rid uid) (rows t)"
  shows "ratings_invariant (execute_all statements empty_ratings)
    \<and> insert_rating rid' uid' stars t' = Inl check_violation
    \<and> update_rating rid uid stars t = Inl check_violation
    \<and> isl (insert_rating rid uid v t)
    \<and> rate_returned (rateMutation recipeIdNum stars outcome local s) = False
    \<and> submitRating_call (rateMutation recipeIdNum stars outcome local s) = None"
  using assms
  by (auto simp: execute_all_invariant empty_ratings_invariant insert_rating_def
      update_rating_def rating_check_def rateMutation_def showNotification_def
      split: prod.splits)

theorem ratings_are_one_to_five_and_unique_witness:
  "((6::int) < 1 \<or> (6::int) > 5)
   \<and> list_ex (same_pair 1 2) (rows (execute_all seed_ratings empty_ratings))
   \<and> ratings_invariant (execute_all (seed_ratings @ [Insert 1 2 3, Update 1 2 9]) empty_ratings)
   \<and> insert_rating 7 5 6 empty_ratings = Inl check_violation
   \<and> isl (insert_rating 1 2 3 (execute_all seed_ratings empty_ratings))
   \<and> rate_returned (rateMutation (Some 1) 6 (Failed unauthorized)
                       \<lparr>user_rating = None, is_updating_rating = False\<rparr> logged_in_state) = False
   \<and> submitRating_call (rateMutation (Some 1) 6 (Failed unauthorized)
                       \<lparr>user_rating = None, is_updating_rating = False\<rparr> logged_in_state) = None"
proof -
  have a: "(6::int) < 1 \<or> (6::int) > 5"
    by simp
  have b: "list_ex (same_pair 1 2) (rows (execute_all seed_ratings empty_ratings))"
    by (simp add: seed_ratings_def empty_ratings_def insert_rating_def rating_check_def
        same_pair_def)
  show ?thesis
    using ratings_are_one_to_five_and_unique [OF a b,
        of "seed_ratings @ [Insert 1 2 3, Update 1 2 9]" 7 5 empty_ratings 3 "Some 1"
           "Failed unauthorized" "\<lparr>user_rating = None, is_updating_rating = False\<rparr>"
           logged_in_state] a b
    by simp
qed

section \<open>Sort, page and filter changes in the browse view\<close>











section \<open>Page changes out of range\<close>

text \<open>
  Claim C9.  In the browse view and in the search-results view, \<open>handlePageChange\<close> with a
  page below 1 or above the \<open>total_pages\<close> of the view's current pagination returns the view
  as it was: the local page, the store and with it the store's current page, and the URL
  query parameters are unchanged.
\<close>

theorem page_out_of_range_changes_nothing:
  assumes "p < 1 \<or> p > total_pages (pagination_info bv)"
    and "p < 1 \<or> p > total_pages (search_pagination sv)"
  shows "browse_handlePageChange p bv = bv \<and> search_handlePageChange p sv = sv"
  using assms
  by (auto simp: browse_handlePageChange_def search_handlePageChange_def search_pagination_def
      split: option.splits)

theorem page_out_of_range_changes_nothing_witness:
  "((4::int) < 1 \<or> 4 > total_pages (pagination_info browsing))
   \<and> ((4::int) < 1 \<or> 4 > total_pages (search_pagination searching))
   \<and> browse_handlePageChange 4 browsing = browsing
   \<and> search_handlePageChange 4 searching = searching"
proof -
  have a: "(4::int) < 1 \<or> 4 > total_pages (pagination_info browsing)"
    by (simp add: pagination_info_def browsing_def three_pages_def)
  have b: "(4::int) < 1 \<or> 4 > total_pages (search_pagination searching)"
    by (simp add: search_pagination_def searching_def three_pages_def)
  show ?thesis
    using page_out_of_range_changes_nothing [OF a b] a b by simp
qed

end
